theory Spec2Isabelle
  imports Main
begin

section \<open>The index scan executor of the execution engine\<close>

text \<open>
  The development follows \<^verbatim>\<open>src/ee/executors/indexscanexecutor.h\<close>. The header holds the
  body of one function, the static helper \<^verbatim>\<open>getNextTuple\<close> that both the index scan and
  the nested-loop index join call once per candidate row, and the declaration of the
  executor class with its fields. The index, the cursor and the tuple are declared in
  headers that the function only includes.
\<close>

subsection \<open>Lookup types, tuples and the index interface\<close>

text \<open>
  Modelled from the spec: the enumeration \<^verbatim>\<open>IndexLookupType\<close> (declared in
  \<^verbatim>\<open>common/types.h\<close>). The function names two of its values,
  \<^verbatim>\<open>INDEX_LOOKUP_TYPE_EQ\<close> and \<^verbatim>\<open>INDEX_LOOKUP_TYPE_GEO_CONTAINS\<close>; the others are the
  lookup types the data model lists: greater-than, greater-or-equal, less-than,
  less-or-equal and none (full scan).
\<close>

datatype IndexLookupType =
    INDEX_LOOKUP_TYPE_NONE
  | INDEX_LOOKUP_TYPE_EQ
  | INDEX_LOOKUP_TYPE_GT
  | INDEX_LOOKUP_TYPE_GTE
  | INDEX_LOOKUP_TYPE_LT
  | INDEX_LOOKUP_TYPE_LTE
  | INDEX_LOOKUP_TYPE_GEO_CONTAINS

text \<open>
  Modelled from the spec: \<^verbatim>\<open>TableTuple\<close> (declared in \<^verbatim>\<open>common/tabletuple.h\<close>). A tuple
  is a reference to a row or the null tuple; the index operations return
  \<^verbatim>\<open>Option<Row>\<close>, and \<^verbatim>\<open>isNullTuple\<close> tells the two apart.
\<close>

type_synonym 'r TableTuple = "'r option"

definition isNullTuple :: "'r TableTuple \<Rightarrow> bool" where
  "isNullTuple t = (t = None)"

text \<open>
  The index (\<^verbatim>\<open>indexes/tableindex.h\<close>) is a parameter of the function. Its two iteration
  operations take the cursor by reference: each returns a tuple and leaves the cursor
  advanced, so here each maps a cursor to the tuple and the cursor after the call.
\<close>

record ('r, 'c) TableIndex =
  nextValueAtKey :: "'c \<Rightarrow> 'r TableTuple \<times> 'c"
  nextValue :: "'c \<Rightarrow> 'r TableTuple \<times> 'c"

text \<open>
  What a call of \<^verbatim>\<open>getNextTuple\<close> can change: the caller's tuple (\<^verbatim>\<open>*tuple\<close>), the
  cursor (\<^verbatim>\<open>*cursor\<close>), and, as a record of the effects on the index, the list of index
  operations invoked so far, oldest first.
\<close>

datatype IndexCall = CallNextValueAtKey | CallNextValue

record ('r, 'c) ScanState =
  tuple :: "'r TableTuple"
  cursor :: 'c
  calls :: "IndexCall list"

text \<open>\<^verbatim>\<open>*tuple = index->nextValueAtKey(*cursor);\<close>\<close>

definition assignNextValueAtKey ::
    "('r, 'c) TableIndex \<Rightarrow> ('r, 'c) ScanState \<Rightarrow> ('r, 'c) ScanState" where
  "assignNextValueAtKey index s =
     (case nextValueAtKey index (cursor s) of
        (t, c) \<Rightarrow> s\<lparr>tuple := t, cursor := c, calls := calls s @ [CallNextValueAtKey]\<rparr>)"

text \<open>\<^verbatim>\<open>*tuple = index->nextValue(*cursor);\<close>\<close>

definition assignNextValue ::
    "('r, 'c) TableIndex \<Rightarrow> ('r, 'c) ScanState \<Rightarrow> ('r, 'c) ScanState" where
  "assignNextValue index s =
     (case nextValue index (cursor s) of
        (t, c) \<Rightarrow> s\<lparr>tuple := t, cursor := c, calls := calls s @ [CallNextValue]\<rparr>)"

subsection \<open>The per-row retrieval step\<close>

text \<open>
  The second half of \<^verbatim>\<open>getNextTuple\<close>: the conditional call of \<^verbatim>\<open>nextValue\<close> and the
  final \<^verbatim>\<open>return ! tuple->isNullTuple();\<close>.
\<close>

definition getNextTupleRest ::
    "IndexLookupType \<Rightarrow> ('r, 'c) TableIndex \<Rightarrow> int \<Rightarrow> ('r, 'c) ScanState
      \<Rightarrow> bool \<times> ('r, 'c) ScanState" where
  "getNextTupleRest lookupType index activeNumOfSearchKeys s =
     (let s' =
        (if (lookupType \<noteq> INDEX_LOOKUP_TYPE_EQ
             \<and> lookupType \<noteq> INDEX_LOOKUP_TYPE_GEO_CONTAINS)
            \<or> activeNumOfSearchKeys = 0
         then assignNextValue index s
         else s)
      in (\<not> isNullTuple (tuple s'), s'))"

text \<open>
  \<^verbatim>\<open>getNextTuple(lookupType, tuple, index, cursor, activeNumOfSearchKeys)\<close>: the result is
  the returned boolean and the state the call leaves behind.
\<close>

definition getNextTuple ::
    "IndexLookupType \<Rightarrow> ('r, 'c) TableIndex \<Rightarrow> int \<Rightarrow> ('r, 'c) ScanState
      \<Rightarrow> bool \<times> ('r, 'c) ScanState" where
  "getNextTuple lookupType index activeNumOfSearchKeys s =
     (if lookupType = INDEX_LOOKUP_TYPE_EQ
         \<or> lookupType = INDEX_LOOKUP_TYPE_GEO_CONTAINS
      then
        (let s1 = assignNextValueAtKey index s
         in if \<not> isNullTuple (tuple s1) then (True, s1)
            else getNextTupleRest lookupType index activeNumOfSearchKeys s1)
      else getNextTupleRest lookupType index activeNumOfSearchKeys s)"

definition startState :: "'c \<Rightarrow> ('r, 'c) ScanState" where
  "startState c = \<lparr>tuple = None, cursor = c, calls = []\<rparr>"

section \<open>The executor around the retrieval step\<close>

text \<open>
  The header declares the executor class, its constructor and the signatures of
  \<^verbatim>\<open>p_init\<close>, \<^verbatim>\<open>p_execute\<close> and \<^verbatim>\<open>outputTuple\<close>; their bodies are in the implementation
  file, which is not among the sources. The class and the constructor below are the
  header's; what the three functions do is taken from the specification.
\<close>

subsection \<open>Plan description and collaborators\<close>

text \<open>
  Modelled from the spec: the enumeration \<^verbatim>\<open>SortDirectionType\<close> (declared in
  \<^verbatim>\<open>common/types.h\<close>): ascending, descending or don't-care.
\<close>

datatype SortDirectionType =
    SORT_DIRECTION_TYPE_DONT_CARE
  | SORT_DIRECTION_TYPE_ASC
  | SORT_DIRECTION_TYPE_DESC

text \<open>
  Modelled from the spec: the error kinds of initialisation and of execution.
  A configuration error is raised at initialisation; an evaluation error or a resource
  error aborts the current execution.
\<close>

datatype InitError = ConfigurationError

datatype ExecError = EvaluationError | ResourceError

text \<open>
  Pointers to objects owned elsewhere (the output table, the inline executors) are
  handles; a null pointer is \<open>None\<close>.
\<close>

type_synonym handle = nat

text \<open>
  Modelled from the spec: the plan description (\<^verbatim>\<open>IndexScanPlanNode\<close> with its inline
  nodes, declared outside the sources): target index identifier, lookup type, sort
  direction, search-key and end-key expressions, optional residual predicate, optional
  offset and limit, optional inline projection, optional inline aggregate or insert
  sub-plan, and the flag for the rank-based offset optimization.
\<close>

datatype InlineSubPlan = InlineAggregate handle | InlineInsert handle

record 'e PlanDescription =
  planTargetIndex :: string
  planLookupType :: IndexLookupType
  planSortDirection :: SortDirectionType
  planSearchKeys :: "'e list"
  planEndKeys :: "'e list"
  planPredicate :: "'e option"
  planOffset :: "nat option"
  planLimit :: "nat option"
  planProjection :: "'e list option"
  planInlineSubPlan :: "InlineSubPlan option"
  planOffsetRankEligible :: bool

text \<open>
  Modelled from the spec: the decision of the postfilter for one candidate row.
\<close>

datatype PostfilterDecision = RejectAndContinue | RejectAndStop | Accept

text \<open>
  Modelled from the spec: the collaborators the executor consumes, each at its interface
  only. \<open>resolveIndex\<close> gives the number of key columns of the named index, or nothing
  when the index cannot be resolved; \<open>positionForLookup\<close> positions a fresh cursor from
  the lookup type, the sort direction, the search-key row with the number of active
  keys, and the end-key row; \<open>evaluate\<close> evaluates an expression against the parameter
  bindings; \<open>activeSearchKeys\<close> is the plan- and parameter-dependent number of active
  search keys; the postfilter is constructed from predicate, offset, limit and the
  optimization flag and decides per row; \<open>project\<close> maps an accepted row through the
  inline projection. Expression evaluation can fail.
\<close>

record ('e, 'v, 'r, 'c, 'f) Collaborators =
  resolveIndex :: "string \<Rightarrow> nat option"
  resultTable :: handle
  tableIndex :: "('r, 'c) TableIndex"
  positionForLookup ::
    "IndexLookupType \<Rightarrow> SortDirectionType \<Rightarrow> 'v list \<Rightarrow> int \<Rightarrow> 'v list \<Rightarrow> 'c"
  evaluate :: "'e \<Rightarrow> 'v list \<Rightarrow> ExecError + 'v"
  activeSearchKeys :: "'e PlanDescription \<Rightarrow> 'v list \<Rightarrow> int"
  newPostfilter :: "'e option \<Rightarrow> nat option \<Rightarrow> nat option \<Rightarrow> bool \<Rightarrow> 'v list \<Rightarrow> 'f"
  postfilterDecide :: "'f \<Rightarrow> 'r \<Rightarrow> ExecError + PostfilterDecision \<times> 'f"
  project :: "'e list \<Rightarrow> 'v list \<Rightarrow> 'r \<Rightarrow> ExecError + 'r"

subsection \<open>The executor class\<close>

text \<open>
  The fields of \<^verbatim>\<open>class IndexScanExecutor\<close>, in the order of the header (the projector
  and the two shared arrays that only manage memory are left out). The search-key
  backing store is the scratch row of key values.
\<close>

record ('e, 'v) IndexScanExecutor =
  m_node :: "'e PlanDescription"
  m_numOfSearchkeys :: int
  m_projectionNode :: "'e list option"
  m_searchKeyArray :: "'e list"
  m_lookupType :: IndexLookupType
  m_sortDirection :: SortDirectionType
  m_hasOffsetRankOptimization :: bool
  m_outputTable :: "handle option"
  m_searchKeyBackingStore :: "'v list option"
  m_aggExec :: "handle option"
  m_insertExec :: "handle option"

text \<open>
  The constructor's initialiser list sets \<^verbatim>\<open>m_searchKeyBackingStore\<close>, \<^verbatim>\<open>m_aggExec\<close> and
  \<^verbatim>\<open>m_insertExec\<close> to \<^verbatim>\<open>NULL\<close> and nothing else: the other fields keep whatever the
  memory held, which is the argument here.
\<close>

definition newIndexScanExecutor ::
    "('e, 'v) IndexScanExecutor \<Rightarrow> ('e, 'v) IndexScanExecutor" where
  "newIndexScanExecutor uninitialised =
     uninitialised\<lparr>m_searchKeyBackingStore := None, m_aggExec := None, m_insertExec := None\<rparr>"

subsection \<open>Output routes\<close>

text \<open>
  Modelled from the spec: the output route. The sinks an executor has configured are
  the non-null ones among its three pointers; it has a route when exactly one is.
\<close>

datatype OutputRoute = ToResultTable handle | ToAggregate handle | ToInsert handle

definition configuredRoutes :: "('e, 'v) IndexScanExecutor \<Rightarrow> OutputRoute list" where
  "configuredRoutes ex =
     (case m_outputTable ex of None \<Rightarrow> [] | Some t \<Rightarrow> [ToResultTable t])
     @ (case m_aggExec ex of None \<Rightarrow> [] | Some a \<Rightarrow> [ToAggregate a])
     @ (case m_insertExec ex of None \<Rightarrow> [] | Some i \<Rightarrow> [ToInsert i])"

definition outputRoute :: "('e, 'v) IndexScanExecutor \<Rightarrow> OutputRoute option" where
  "outputRoute ex = (case configuredRoutes ex of [route] \<Rightarrow> Some route | _ \<Rightarrow> None)"

text \<open>
  Modelled from the spec: the route the plan shape determines. Without an inline
  sub-plan rows go to the result table, with one they go to its consumer.
\<close>

definition planRoute ::
    "('e, 'v, 'r, 'c, 'f) Collaborators \<Rightarrow> 'e PlanDescription \<Rightarrow> OutputRoute" where
  "planRoute col plan =
     (case planInlineSubPlan plan of
        None \<Rightarrow> ToResultTable (resultTable col)
      | Some (InlineAggregate a) \<Rightarrow> ToAggregate a
      | Some (InlineInsert i) \<Rightarrow> ToInsert i)"

subsection \<open>Initialisation\<close>

text \<open>
  Modelled from the spec: \<^verbatim>\<open>p_init\<close> (declared in the header, defined outside the
  sources). It fails with a configuration error when the target index cannot be
  resolved or the plan has more search keys than the index has key columns. Otherwise
  it binds the plan, allocates the search-key buffer with one slot per key column
  (holding \<open>blank\<close>), stores exactly one of the output-table handle, the inline
  aggregate consumer and the inline insert consumer, and precomputes lookup type, sort
  direction and the optimization flag.
\<close>

definition p_init ::
    "('e, 'v, 'r, 'c, 'f) Collaborators \<Rightarrow> 'v \<Rightarrow> 'e PlanDescription
      \<Rightarrow> ('e, 'v) IndexScanExecutor \<Rightarrow> InitError + ('e, 'v) IndexScanExecutor" where
  "p_init col blank plan ex =
     (case resolveIndex col (planTargetIndex plan) of
        None \<Rightarrow> Inl ConfigurationError
      | Some keyWidth \<Rightarrow>
          if keyWidth < length (planSearchKeys plan) then Inl ConfigurationError
          else Inr (ex\<lparr>
            m_node := plan,
            m_numOfSearchkeys := int (length (planSearchKeys plan)),
            m_projectionNode := planProjection plan,
            m_searchKeyArray := planSearchKeys plan,
            m_lookupType := planLookupType plan,
            m_sortDirection := planSortDirection plan,
            m_hasOffsetRankOptimization := planOffsetRankEligible plan,
            m_outputTable :=
              (case planInlineSubPlan plan of None \<Rightarrow> Some (resultTable col) | Some _ \<Rightarrow> None),
            m_searchKeyBackingStore := Some (replicate keyWidth blank),
            m_aggExec :=
              (case planInlineSubPlan plan of Some (InlineAggregate a) \<Rightarrow> Some a | _ \<Rightarrow> None),
            m_insertExec :=
              (case planInlineSubPlan plan of Some (InlineInsert i) \<Rightarrow> Some i | _ \<Rightarrow> None)\<rparr>))"

subsection \<open>Execution\<close>

text \<open>
  Modelled from the spec: search-key construction. Each search-key expression is
  evaluated in order against the parameter bindings and its value written into the
  corresponding slot of the buffer, in place. An evaluation error stops the
  construction with the slots written so far. A slot beyond the buffer's capacity has
  no defined result (\<open>None\<close>); initialisation excludes it.
\<close>

fun buildSearchKey ::
    "('e \<Rightarrow> 'v list \<Rightarrow> ExecError + 'v) \<Rightarrow> 'v list \<Rightarrow> 'e list \<Rightarrow> nat \<Rightarrow> 'v list
      \<Rightarrow> ('v list \<times> (ExecError + unit)) option" where
  "buildSearchKey ev params [] slot buffer = Some (buffer, Inr ())"
| "buildSearchKey ev params (e # es) slot buffer =
     (if length buffer \<le> slot then None
      else (case ev e params of
              Inl err \<Rightarrow> Some (buffer, Inl err)
            | Inr v \<Rightarrow> buildSearchKey ev params es (Suc slot) (buffer[slot := v])))"

text \<open>
  Modelled from the spec: the end-key expressions are evaluated in the same way into a
  second row, which bounds range scans from above.
\<close>

fun evaluateAll ::
    "('e \<Rightarrow> 'v list \<Rightarrow> ExecError + 'v) \<Rightarrow> 'v list \<Rightarrow> 'e list \<Rightarrow> ExecError + 'v list" where
  "evaluateAll ev params [] = Inr []"
| "evaluateAll ev params (e # es) =
     (case ev e params of
        Inl err \<Rightarrow> Inl err
      | Inr v \<Rightarrow> (case evaluateAll ev params es of
                    Inl err \<Rightarrow> Inl err
                  | Inr vs \<Rightarrow> Inr (v # vs)))"

text \<open>
  Modelled from the spec: projection. With an inline projection each accepted row is
  mapped through the projector; without one the row is routed unmodified.
\<close>

definition projectRow ::
    "('e, 'v, 'r, 'c, 'f) Collaborators \<Rightarrow> 'e list option \<Rightarrow> 'v list \<Rightarrow> 'r \<Rightarrow> ExecError + 'r" where
  "projectRow col projection params row =
     (case projection of None \<Rightarrow> Inr row | Some columns \<Rightarrow> project col columns params row)"

text \<open>
  Modelled from the spec: the scan loop of \<^verbatim>\<open>p_execute\<close>. Each round fetches a
  candidate row with \<^verbatim>\<open>getNextTuple\<close> and stops when it returns false; the postfilter
  decides reject-and-continue, reject-and-stop or accept; an accepted row is projected
  and handed to the sink. The result is the sequence of rows handed to the sink, or the
  error that aborted the execution. The index decides whether the loop ends, so a loop
  that never returns has the value \<open>None\<close>.
\<close>

partial_function (option) scanLoop ::
    "('e, 'v, 'r, 'c, 'f) Collaborators \<Rightarrow> IndexLookupType \<Rightarrow> int \<Rightarrow> 'e list option \<Rightarrow> 'v list
      \<Rightarrow> ('r, 'c) ScanState \<Rightarrow> 'f \<Rightarrow> 'r list \<Rightarrow> (ExecError + 'r list) option" where
  "scanLoop col lookupType activeNumOfSearchKeys projection params s postfilter emitted =
     (case getNextTuple lookupType (tableIndex col) activeNumOfSearchKeys s of
        (found, s') \<Rightarrow>
          if \<not> found then Some (Inr emitted)
          else (case tuple s' of
                  None \<Rightarrow> Some (Inr emitted)
                | Some row \<Rightarrow>
                    (case postfilterDecide col postfilter row of
                       Inl err \<Rightarrow> Some (Inl err)
                     | Inr (decision, postfilter') \<Rightarrow>
                         (case decision of
                            RejectAndStop \<Rightarrow> Some (Inr emitted)
                          | RejectAndContinue \<Rightarrow>
                              scanLoop col lookupType activeNumOfSearchKeys projection params
                                s' postfilter' emitted
                          | Accept \<Rightarrow>
                              (case projectRow col projection params row of
                                 Inl err \<Rightarrow> Some (Inl err)
                               | Inr projected \<Rightarrow>
                                   scanLoop col lookupType activeNumOfSearchKeys projection
                                     params s' postfilter' (emitted @ [projected]))))))"

text \<open>
  Modelled from the spec: the part of \<^verbatim>\<open>p_execute\<close> after the search key is built.
  The end key is evaluated, a fresh cursor is positioned and a fresh postfilter is
  constructed, and the loop runs from there with nothing emitted yet.
\<close>

definition scanPositioned ::
    "('e, 'v, 'r, 'c, 'f) Collaborators \<Rightarrow> ('e, 'v) IndexScanExecutor \<Rightarrow> 'v list \<Rightarrow> int
      \<Rightarrow> 'v list \<Rightarrow> (ExecError + 'r list) option" where
  "scanPositioned col ex params active keyRow =
     (case evaluateAll (evaluate col) params (planEndKeys (m_node ex)) of
        Inl err \<Rightarrow> Some (Inl err)
      | Inr endKey \<Rightarrow>
          scanLoop col (m_lookupType ex) active (m_projectionNode ex) params
            (startState
               (positionForLookup col (m_lookupType ex) (m_sortDirection ex)
                  keyRow active endKey))
            (newPostfilter col (planPredicate (m_node ex)) (planOffset (m_node ex))
               (planLimit (m_node ex)) (m_hasOffsetRankOptimization ex) params)
            [])"

text \<open>
  Modelled from the spec: the search key. The search key is the row of values built
  from the search-key expressions of this execution, and key values depend on the
  parameter bindings. So the key that positions the lookup is the front of the buffer,
  one slot per expression evaluated; a slot that this execution did not write holds no
  key value and is not part of it.
\<close>

definition searchKey :: "'e list \<Rightarrow> 'v list \<Rightarrow> 'v list" where
  "searchKey keyExpressions buffer = take (length keyExpressions) buffer"

text \<open>
  Modelled from the spec: \<^verbatim>\<open>p_execute(params)\<close> (declared in the header, defined outside
  the sources). The executor is the state that lasts from one execution to the next;
  the result is the executor after the call and either the error or the route with the
  rows handed to it. The active search keys are at most the plan's, and only their
  expressions are evaluated. An executor without a buffer or without exactly one
  configured sink was not initialised, and executing it has no defined result
  (\<open>None\<close>).
\<close>

definition p_execute ::
    "('e, 'v, 'r, 'c, 'f) Collaborators \<Rightarrow> ('e, 'v) IndexScanExecutor \<Rightarrow> 'v list
      \<Rightarrow> (('e, 'v) IndexScanExecutor \<times> (ExecError + OutputRoute \<times> 'r list)) option" where
  "p_execute col ex params =
     (case (m_searchKeyBackingStore ex, outputRoute ex) of
        (Some buffer, Some route) \<Rightarrow>
          (let active = min (m_numOfSearchkeys ex) (activeSearchKeys col (m_node ex) params);
               keyExpressions = take (nat active) (m_searchKeyArray ex)
           in case buildSearchKey (evaluate col) params keyExpressions 0 buffer of
                None \<Rightarrow> None
              | Some (buffer', built) \<Rightarrow>
                  (let ex' = ex\<lparr>m_searchKeyBackingStore := Some buffer'\<rparr>
                   in case built of
                        Inl err \<Rightarrow> Some (ex', Inl err)
                      | Inr _ \<Rightarrow>
                          (case scanPositioned col ex params active
                                  (searchKey keyExpressions buffer') of
                             None \<Rightarrow> None
                           | Some (Inl err) \<Rightarrow> Some (ex', Inl err)
                           | Some (Inr rows) \<Rightarrow> Some (ex', Inr (route, rows)))))
      | _ \<Rightarrow> None)"

text \<open>
  A sequence of executions of one executor, one per list of parameter bindings, each
  starting from the executor the previous one left.
\<close>

fun runExecutions ::
    "('e, 'v, 'r, 'c, 'f) Collaborators \<Rightarrow> ('e, 'v) IndexScanExecutor \<Rightarrow> 'v list list
      \<Rightarrow> (('e, 'v) IndexScanExecutor \<times> (ExecError + OutputRoute \<times> 'r list) list) option" where
  "runExecutions col ex [] = Some (ex, [])"
| "runExecutions col ex (params # rest) =
     (case p_execute col ex params of
        None \<Rightarrow> None
      | Some (ex', result) \<Rightarrow>
          (case runExecutions col ex' rest of
             None \<Rightarrow> None
           | Some (ex'', results) \<Rightarrow> Some (ex'', result # results)))"

text \<open>
  An index that contains zero rows has no row to return: from every cursor both
  iteration operations return the null tuple.
\<close>

definition emptyIndex :: "('r, 'c) TableIndex \<Rightarrow> bool" where
  "emptyIndex index =
     (\<forall>c. isNullTuple (fst (nextValueAtKey index c)) \<and> isNullTuple (fst (nextValue index c)))"

section \<open>A worked configuration\<close>

text \<open>
  Modelled from the spec: an index behind the interface
  \<^verbatim>\<open>cursor.nextAtKey() -> Option<Row>\<close>, \<^verbatim>\<open>cursor.next() -> Option<Row>\<close>, used to run
  the definitions on concrete inputs. The index owns its rows, kept in key order. A
  cursor is a position in that order, read from the front or from the back, with the
  number of rows left in the duplicate-key chain it was positioned at. An exhausted
  operation returns the null tuple and leaves the cursor as it is.
\<close>

record RowsCursor =
  m_forward :: bool
  m_chain :: nat
  m_position :: nat

definition rowAt :: "'r list \<Rightarrow> RowsCursor \<Rightarrow> 'r TableTuple" where
  "rowAt rows c =
     (let ordered = (if m_forward c then rows else rev rows)
      in if m_position c < length ordered then Some (ordered ! m_position c) else None)"

definition rowsNextValueAtKey :: "'r list \<Rightarrow> RowsCursor \<Rightarrow> 'r TableTuple \<times> RowsCursor" where
  "rowsNextValueAtKey rows c =
     (if m_chain c = 0 then (None, c)
      else (case rowAt rows c of
              None \<Rightarrow> (None, c)
            | Some r \<Rightarrow>
                (Some r, c\<lparr>m_chain := m_chain c - 1, m_position := Suc (m_position c)\<rparr>)))"

definition rowsNextValue :: "'r list \<Rightarrow> RowsCursor \<Rightarrow> 'r TableTuple \<times> RowsCursor" where
  "rowsNextValue rows c =
     (case rowAt rows c of
        None \<Rightarrow> (None, c)
      | Some r \<Rightarrow> (Some r, c\<lparr>m_position := Suc (m_position c)\<rparr>))"

definition rowsIndex :: "'r list \<Rightarrow> ('r, RowsCursor) TableIndex" where
  "rowsIndex rows =
     \<lparr>nextValueAtKey = rowsNextValueAtKey rows, nextValue = rowsNextValue rows\<rparr>"

definition cursorAt :: "nat \<Rightarrow> nat \<Rightarrow> RowsCursor" where
  "cursorAt chain position = \<lparr>m_forward = True, m_chain = chain, m_position = position\<rparr>"

text \<open>
  Modelled from the spec: positioning on a single-column key. Exact match and
  geo-contains position at the first row equal to the key, with its duplicate chain;
  greater-than and greater-or-equal position at the first row beyond or at the key;
  less-than, less-or-equal and a scan without active keys position at the end the sort
  direction names.
\<close>

definition rowsPosition ::
    "(int \<times> 'y) list \<Rightarrow> IndexLookupType \<Rightarrow> SortDirectionType \<Rightarrow> int list \<Rightarrow> int \<Rightarrow> int list
      \<Rightarrow> RowsCursor" where
  "rowsPosition rows lookupType sortDirection keyRow active endKey =
     (let forward = (sortDirection \<noteq> SORT_DIRECTION_TYPE_DESC);
          ordered = (if forward then rows else rev rows);
          atEnd = \<lparr>m_forward = forward, m_chain = 0, m_position = 0\<rparr>
      in case (if active \<le> 0 then [] else take 1 keyRow) of
           [] \<Rightarrow> atEnd
         | k # _ \<Rightarrow>
             (if lookupType = INDEX_LOOKUP_TYPE_EQ \<or> lookupType = INDEX_LOOKUP_TYPE_GEO_CONTAINS
              then \<lparr>m_forward = forward,
                     m_chain = length (filter (\<lambda>r. fst r = k) ordered),
                     m_position = length (takeWhile (\<lambda>r. fst r \<noteq> k) ordered)\<rparr>
              else if lookupType = INDEX_LOOKUP_TYPE_GT
              then atEnd\<lparr>m_position := length (takeWhile (\<lambda>r. fst r \<le> k) ordered)\<rparr>
              else if lookupType = INDEX_LOOKUP_TYPE_GTE
              then atEnd\<lparr>m_position := length (takeWhile (\<lambda>r. fst r < k) ordered)\<rparr>
              else atEnd))"

text \<open>An expression of the worked configuration names a parameter by its position.\<close>

definition parameterValue :: "nat \<Rightarrow> int list \<Rightarrow> ExecError + int" where
  "parameterValue e params =
     (if e < length params then Inr (params ! e) else Inl EvaluationError)"

text \<open>A postfilter that only counts a limit down, and stops the scan once it is used up.\<close>

definition limitPostfilter ::
    "nat option \<Rightarrow> 'r \<Rightarrow> ExecError + PostfilterDecision \<times> nat option" where
  "limitPostfilter remaining row =
     (case remaining of
        None \<Rightarrow> Inr (Accept, None)
      | Some 0 \<Rightarrow> Inr (RejectAndStop, remaining)
      | Some (Suc n) \<Rightarrow> Inr (Accept, Some n))"

definition rowsCollaborators ::
    "(int \<times> string) list
      \<Rightarrow> (nat, int, int \<times> string, RowsCursor, nat option) Collaborators" where
  "rowsCollaborators rows =
     \<lparr>resolveIndex = (\<lambda>name. if name = ''IDX_X'' then Some 1 else None),
      resultTable = 0,
      tableIndex = rowsIndex rows,
      positionForLookup = rowsPosition rows,
      evaluate = parameterValue,
      activeSearchKeys = (\<lambda>plan params. int (length (planSearchKeys plan))),
      newPostfilter = (\<lambda>predicate offset limit eligible params. limit),
      postfilterDecide = limitPostfilter,
      project = (\<lambda>columns params row. Inr row)\<rparr>"

definition scenarioRows :: "(int \<times> string) list" where
  "scenarioRows = [(1, ''a''), (1, ''b''), (2, ''c'')]"

definition equalityPlan :: "nat PlanDescription" where
  "equalityPlan =
     \<lparr>planTargetIndex = ''IDX_X'', planLookupType = INDEX_LOOKUP_TYPE_EQ,
      planSortDirection = SORT_DIRECTION_TYPE_ASC, planSearchKeys = [0], planEndKeys = [],
      planPredicate = None, planOffset = None, planLimit = None, planProjection = None,
      planInlineSubPlan = None, planOffsetRankEligible = False\<rparr>"

definition greaterOrEqualPlan :: "nat PlanDescription" where
  "greaterOrEqualPlan = equalityPlan\<lparr>planLookupType := INDEX_LOOKUP_TYPE_GTE\<rparr>"

definition aggregatePlan :: "nat PlanDescription" where
  "aggregatePlan = equalityPlan\<lparr>planInlineSubPlan := Some (InlineAggregate 7)\<rparr>"

text \<open>
  The executor that initialisation with a plan of the worked configuration yields, and
  some memory for the constructor to start from.
\<close>

definition initialisedExecutor :: "nat PlanDescription \<Rightarrow> (nat, int) IndexScanExecutor" where
  "initialisedExecutor plan =
     \<lparr>m_node = plan, m_numOfSearchkeys = int (length (planSearchKeys plan)),
      m_projectionNode = planProjection plan, m_searchKeyArray = planSearchKeys plan,
      m_lookupType = planLookupType plan, m_sortDirection = planSortDirection plan,
      m_hasOffsetRankOptimization = planOffsetRankEligible plan,
      m_outputTable =
        (case planInlineSubPlan plan of None \<Rightarrow> Some 0 | Some _ \<Rightarrow> None),
      m_searchKeyBackingStore = Some [0],
      m_aggExec =
        (case planInlineSubPlan plan of Some (InlineAggregate a) \<Rightarrow> Some a | _ \<Rightarrow> None),
      m_insertExec =
        (case planInlineSubPlan plan of Some (InlineInsert i) \<Rightarrow> Some i | _ \<Rightarrow> None)\<rparr>"

definition staleMemory :: "(nat, int) IndexScanExecutor" where
  "staleMemory =
     \<lparr>m_node = aggregatePlan, m_numOfSearchkeys = 3, m_projectionNode = None,
      m_searchKeyArray = [], m_lookupType = INDEX_LOOKUP_TYPE_LT,
      m_sortDirection = SORT_DIRECTION_TYPE_DESC, m_hasOffsetRankOptimization = True,
      m_outputTable = Some 5, m_searchKeyBackingStore = Some [],
      m_aggExec = Some 6, m_insertExec = Some 8\<rparr>"

text \<open>
  A second worked configuration, for a partial-key range scan: an index on two key
  columns whose rows are the key pairs, in key order. The number of active search keys
  is the number of parameter bindings supplied, and the cursor is positioned at the
  first row at or beyond the key built, compared on as many columns as the key has.
\<close>

definition pairPosition ::
    "(int \<times> int) list \<Rightarrow> IndexLookupType \<Rightarrow> SortDirectionType \<Rightarrow> int list \<Rightarrow> int \<Rightarrow> int list
      \<Rightarrow> RowsCursor" where
  "pairPosition rows lookupType sortDirection keyRow active endKey =
     (case keyRow of
        [] \<Rightarrow> cursorAt 0 0
      | [k1] \<Rightarrow> cursorAt 0 (length (takeWhile (\<lambda>r. fst r < k1) rows))
      | k1 # k2 # _ \<Rightarrow>
          cursorAt 0
            (length (takeWhile (\<lambda>r. fst r < k1 \<or> (fst r = k1 \<and> snd r < k2)) rows)))"

definition pairCollaborators ::
    "(int \<times> int) list \<Rightarrow> (nat, int, int \<times> int, RowsCursor, nat option) Collaborators" where
  "pairCollaborators rows =
     \<lparr>resolveIndex = (\<lambda>name. if name = ''IDX_XY'' then Some 2 else None),
      resultTable = 0,
      tableIndex = rowsIndex rows,
      positionForLookup = pairPosition rows,
      evaluate = parameterValue,
      activeSearchKeys = (\<lambda>plan params. int (length params)),
      newPostfilter = (\<lambda>predicate offset limit eligible params. limit),
      postfilterDecide = limitPostfilter,
      project = (\<lambda>columns params row. Inr row)\<rparr>"

definition pairRows :: "(int \<times> int) list" where
  "pairRows = [(1, 1), (1, 2), (2, 3)]"

definition partialKeyPlan :: "nat PlanDescription" where
  "partialKeyPlan =
     \<lparr>planTargetIndex = ''IDX_XY'', planLookupType = INDEX_LOOKUP_TYPE_GTE,
      planSortDirection = SORT_DIRECTION_TYPE_ASC, planSearchKeys = [0, 1], planEndKeys = [],
      planPredicate = None, planOffset = None, planLimit = None, planProjection = None,
      planInlineSubPlan = None, planOffsetRankEligible = False\<rparr>"

definition partialKeyExecutor :: "int list \<Rightarrow> (nat, int) IndexScanExecutor" where
  "partialKeyExecutor buffer =
     (initialisedExecutor partialKeyPlan)\<lparr>m_searchKeyBackingStore := Some buffer\<rparr>"

section \<open>Properties of the retrieval step\<close>

lemmas getNextTuple_defs =
  getNextTuple_def getNextTupleRest_def assignNextValueAtKey_def assignNextValue_def
  isNullTuple_def

lemmas rowsIndex_defs =
  rowsIndex_def rowsNextValueAtKey_def rowsNextValue_def rowAt_def cursorAt_def
  startState_def

text \<open>
  C1. An exact-match or geo-contains lookup with at least one active search key whose
  duplicate-key chain is exhausted (\<^verbatim>\<open>nextValueAtKey\<close> returns the null tuple) makes
  \<^verbatim>\<open>getNextTuple\<close> return false, and the only index operation of the call is that one
  \<^verbatim>\<open>nextValueAtKey\<close>: \<^verbatim>\<open>nextValue\<close> is not called.
\<close>

theorem getNextTuple_chain_exhausted:
  assumes "lookupType = INDEX_LOOKUP_TYPE_EQ \<or> lookupType = INDEX_LOOKUP_TYPE_GEO_CONTAINS"
    and "1 \<le> activeNumOfSearchKeys"
    and "isNullTuple (fst (nextValueAtKey index (cursor s)))"
  shows "fst (getNextTuple lookupType index activeNumOfSearchKeys s) = False
    \<and> calls (snd (getNextTuple lookupType index activeNumOfSearchKeys s))
        = calls s @ [CallNextValueAtKey]
    \<and> CallNextValue \<notin> set (drop (length (calls s))
        (calls (snd (getNextTuple lookupType index activeNumOfSearchKeys s))))"
  using assms by (auto simp: getNextTuple_defs Let_def split: prod.splits)

theorem getNextTuple_chain_exhausted_witness:
  "fst (getNextTuple INDEX_LOOKUP_TYPE_EQ (rowsIndex [5::nat, 6]) 1
          (startState (cursorAt 0 0))) = False
   \<and> calls (snd (getNextTuple INDEX_LOOKUP_TYPE_EQ (rowsIndex [5::nat, 6]) 1
          (startState (cursorAt 0 0)))) = [CallNextValueAtKey]"
  using getNextTuple_chain_exhausted
    [where lookupType = INDEX_LOOKUP_TYPE_EQ and activeNumOfSearchKeys = 1
       and index = "rowsIndex [5::nat, 6]" and s = "startState (cursorAt 0 0)"]
  by (simp add: rowsIndex_defs isNullTuple_def)

text \<open>
  C2, as amended. When the lookup type is a range type, the candidate tuple is the
  result of \<^verbatim>\<open>nextValue\<close> at the caller's cursor and that is the only index operation.
  When the lookup type is exact-match or geo-contains, there are zero active search
  keys and the request at the key returned the null tuple, the candidate tuple is the
  result of \<^verbatim>\<open>nextValue\<close> at the cursor the request at the key left.
\<close>

theorem getNextTuple_ordered_traversal:
  "((lookupType \<noteq> INDEX_LOOKUP_TYPE_EQ \<and> lookupType \<noteq> INDEX_LOOKUP_TYPE_GEO_CONTAINS) \<longrightarrow>
      getNextTuple lookupType index activeNumOfSearchKeys s
        = (\<not> isNullTuple (fst (nextValue index (cursor s))),
           s\<lparr>tuple := fst (nextValue index (cursor s)),
             cursor := snd (nextValue index (cursor s)),
             calls := calls s @ [CallNextValue]\<rparr>))
   \<and> ((lookupType = INDEX_LOOKUP_TYPE_EQ \<or> lookupType = INDEX_LOOKUP_TYPE_GEO_CONTAINS)
        \<and> activeNumOfSearchKeys = 0
        \<and> isNullTuple (fst (nextValueAtKey index (cursor s))) \<longrightarrow>
      getNextTuple lookupType index activeNumOfSearchKeys s
        = (\<not> isNullTuple (fst (nextValue index (snd (nextValueAtKey index (cursor s))))),
           s\<lparr>tuple := fst (nextValue index (snd (nextValueAtKey index (cursor s)))),
             cursor := snd (nextValue index (snd (nextValueAtKey index (cursor s)))),
             calls := calls s @ [CallNextValueAtKey, CallNextValue]\<rparr>))"
  by (auto simp: getNextTuple_defs Let_def split: prod.splits)

theorem getNextTuple_ordered_traversal_witness:
  "getNextTuple INDEX_LOOKUP_TYPE_GTE (rowsIndex [5::nat, 6]) 1 (startState (cursorAt 0 0))
     = (True, \<lparr>tuple = Some 5, cursor = cursorAt 0 1, calls = [CallNextValue]\<rparr>)
   \<and> getNextTuple INDEX_LOOKUP_TYPE_GEO_CONTAINS (rowsIndex [5::nat, 6]) 0
       (startState (cursorAt 0 0))
     = (True, \<lparr>tuple = Some 5, cursor = cursorAt 0 1,
               calls = [CallNextValueAtKey, CallNextValue]\<rparr>)"
  using getNextTuple_ordered_traversal
    [where lookupType = INDEX_LOOKUP_TYPE_GTE and activeNumOfSearchKeys = 1
       and index = "rowsIndex [5::nat, 6]" and s = "startState (cursorAt 0 0)"]
    getNextTuple_ordered_traversal
    [where lookupType = INDEX_LOOKUP_TYPE_GEO_CONTAINS and activeNumOfSearchKeys = 0
       and index = "rowsIndex [5::nat, 6]" and s = "startState (cursorAt 0 0)"]
  by (simp add: rowsIndex_defs isNullTuple_def)

text \<open>
  C2, as stated, fails: with zero active search keys and an exact-match lookup whose
  key still has a row in its duplicate chain, the candidate tuple comes from
  \<^verbatim>\<open>nextValueAtKey\<close>, the call returns true, and \<^verbatim>\<open>nextValue\<close> is not called. The
  cursor shows it: \<^verbatim>\<open>nextValue\<close> would have left the chain count untouched.
\<close>

theorem getNextTuple_zero_keys_counterexample:
  "getNextTuple INDEX_LOOKUP_TYPE_EQ (rowsIndex [7::nat, 9]) 0 (startState (cursorAt 1 0))
       = (True, \<lparr>tuple = Some 7, cursor = cursorAt 0 1, calls = [CallNextValueAtKey]\<rparr>)
   \<and> CallNextValue \<notin> set (calls (snd
        (getNextTuple INDEX_LOOKUP_TYPE_EQ (rowsIndex [7::nat, 9]) 0
           (startState (cursorAt 1 0)))))
   \<and> snd (nextValue (rowsIndex [7::nat, 9]) (cursorAt 1 0)) = cursorAt 1 1"
  by (simp add: getNextTuple_defs rowsIndex_defs)

text \<open>
  C3. For an exact-match or geo-contains lookup the first index operation of the call
  is \<^verbatim>\<open>nextValueAtKey\<close>; if it yields a non-null row, \<^verbatim>\<open>getNextTuple\<close> returns true with
  that row in the caller's tuple, and that request is the only index operation of the
  call.
\<close>

theorem getNextTuple_at_key_first:
  assumes "lookupType = INDEX_LOOKUP_TYPE_EQ \<or> lookupType = INDEX_LOOKUP_TYPE_GEO_CONTAINS"
  shows "(\<exists>more. calls (snd (getNextTuple lookupType index activeNumOfSearchKeys s))
            = calls s @ CallNextValueAtKey # more)
    \<and> (\<not> isNullTuple (fst (nextValueAtKey index (cursor s))) \<longrightarrow>
         getNextTuple lookupType index activeNumOfSearchKeys s
           = (True, s\<lparr>tuple := fst (nextValueAtKey index (cursor s)),
                      cursor := snd (nextValueAtKey index (cursor s)),
                      calls := calls s @ [CallNextValueAtKey]\<rparr>))"
  using assms by (auto simp: getNextTuple_defs Let_def split: prod.splits)

theorem getNextTuple_at_key_first_witness:
  "getNextTuple INDEX_LOOKUP_TYPE_EQ (rowsIndex [7::nat, 8, 9]) 2 (startState (cursorAt 2 0))
     = (True, \<lparr>tuple = Some 7, cursor = cursorAt 1 1, calls = [CallNextValueAtKey]\<rparr>)"
  using getNextTuple_at_key_first
    [where lookupType = INDEX_LOOKUP_TYPE_EQ and activeNumOfSearchKeys = 2
       and index = "rowsIndex [7::nat, 8, 9]" and s = "startState (cursorAt 2 0)"]
  by (simp add: rowsIndex_defs isNullTuple_def)

text \<open>
  C4. For every lookup type and every number of active search keys, \<^verbatim>\<open>getNextTuple\<close>
  returns true if and only if the tuple it leaves in the caller's hands is not the null
  tuple.
\<close>

theorem getNextTuple_true_iff_nonnull:
  "fst (getNextTuple lookupType index activeNumOfSearchKeys s)
     = (\<not> isNullTuple (tuple (snd (getNextTuple lookupType index activeNumOfSearchKeys s))))"
  by (simp add: getNextTuple_def getNextTupleRest_def Let_def)

theorem getNextTuple_true_iff_nonnull_witness:
  "fst (getNextTuple INDEX_LOOKUP_TYPE_GT (rowsIndex [4::nat]) 1 (startState (cursorAt 0 0)))
   \<and> tuple (snd (getNextTuple INDEX_LOOKUP_TYPE_GT (rowsIndex [4::nat]) 1
        (startState (cursorAt 0 0)))) = Some 4
   \<and> \<not> fst (getNextTuple INDEX_LOOKUP_TYPE_GT (rowsIndex [4::nat]) 1
        (startState (cursorAt 0 1)))"
  using getNextTuple_true_iff_nonnull
    [where lookupType = INDEX_LOOKUP_TYPE_GT and activeNumOfSearchKeys = 1
       and index = "rowsIndex [4::nat]" and s = "startState (cursorAt 0 0)"]
    getNextTuple_true_iff_nonnull
    [where lookupType = INDEX_LOOKUP_TYPE_GT and activeNumOfSearchKeys = 1
       and index = "rowsIndex [4::nat]" and s = "startState (cursorAt 0 1)"]
  by (simp add: getNextTuple_defs rowsIndex_defs)

text \<open>
  C9. For an exact-match or geo-contains lookup with zero active search keys the call
  first requests a row with \<^verbatim>\<open>nextValueAtKey\<close>; if that returns the null tuple, the same
  call goes on to \<^verbatim>\<open>nextValue\<close> at the cursor the first request left, and returns what
  that yields.
\<close>

theorem getNextTuple_eq_zero_keys:
  assumes "lookupType = INDEX_LOOKUP_TYPE_EQ \<or> lookupType = INDEX_LOOKUP_TYPE_GEO_CONTAINS"
    and "activeNumOfSearchKeys = 0"
  shows "(\<exists>more. calls (snd (getNextTuple lookupType index activeNumOfSearchKeys s))
            = calls s @ CallNextValueAtKey # more)
    \<and> (isNullTuple (fst (nextValueAtKey index (cursor s))) \<longrightarrow>
         getNextTuple lookupType index activeNumOfSearchKeys s
           = (\<not> isNullTuple (fst (nextValue index (snd (nextValueAtKey index (cursor s))))),
              s\<lparr>tuple := fst (nextValue index (snd (nextValueAtKey index (cursor s)))),
                cursor := snd (nextValue index (snd (nextValueAtKey index (cursor s)))),
                calls := calls s @ [CallNextValueAtKey, CallNextValue]\<rparr>))"
  using assms by (auto simp: getNextTuple_defs Let_def split: prod.splits)

theorem getNextTuple_eq_zero_keys_witness:
  "getNextTuple INDEX_LOOKUP_TYPE_EQ (rowsIndex [5::nat, 6]) 0 (startState (cursorAt 0 0))
     = (True, \<lparr>tuple = Some 5, cursor = cursorAt 0 1,
               calls = [CallNextValueAtKey, CallNextValue]\<rparr>)
   \<and> getNextTuple INDEX_LOOKUP_TYPE_EQ (rowsIndex [5::nat, 6]) 1 (startState (cursorAt 0 0))
     = (False, \<lparr>tuple = None, cursor = cursorAt 0 0, calls = [CallNextValueAtKey]\<rparr>)"
  using getNextTuple_eq_zero_keys
    [where lookupType = INDEX_LOOKUP_TYPE_EQ and activeNumOfSearchKeys = 0
       and index = "rowsIndex [5::nat, 6]" and s = "startState (cursorAt 0 0)"]
  by (simp add: getNextTuple_defs rowsIndex_defs)

text \<open>
  C10. Every control path of \<^verbatim>\<open>getNextTuple\<close> assigns the caller's tuple the result of
  an index operation before it returns: what the call leaves does not depend on the
  tuple the caller passed in, the tuple left is the result of the last index operation
  of the call, and the returned boolean describes that tuple.
\<close>

theorem getNextTuple_assigns_tuple:
  "getNextTuple lookupType index activeNumOfSearchKeys (s\<lparr>tuple := t\<rparr>)
     = getNextTuple lookupType index activeNumOfSearchKeys s
   \<and> ((calls (snd (getNextTuple lookupType index activeNumOfSearchKeys s))
          = calls s @ [CallNextValueAtKey]
        \<and> tuple (snd (getNextTuple lookupType index activeNumOfSearchKeys s))
          = fst (nextValueAtKey index (cursor s)))
      \<or> (calls (snd (getNextTuple lookupType index activeNumOfSearchKeys s))
          = calls s @ [CallNextValue]
        \<and> tuple (snd (getNextTuple lookupType index activeNumOfSearchKeys s))
          = fst (nextValue index (cursor s)))
      \<or> (calls (snd (getNextTuple lookupType index activeNumOfSearchKeys s))
          = calls s @ [CallNextValueAtKey, CallNextValue]
        \<and> tuple (snd (getNextTuple lookupType index activeNumOfSearchKeys s))
          = fst (nextValue index (snd (nextValueAtKey index (cursor s))))))
   \<and> fst (getNextTuple lookupType index activeNumOfSearchKeys s)
       = (\<not> isNullTuple (tuple (snd (getNextTuple lookupType index activeNumOfSearchKeys s))))"
  by (auto simp: getNextTuple_defs Let_def split: prod.splits)

theorem getNextTuple_assigns_tuple_witness:
  "getNextTuple INDEX_LOOKUP_TYPE_LTE (rowsIndex [3::nat]) 1
       \<lparr>tuple = Some 99, cursor = cursorAt 0 0, calls = []\<rparr>
     = getNextTuple INDEX_LOOKUP_TYPE_LTE (rowsIndex [3::nat]) 1
       \<lparr>tuple = None, cursor = cursorAt 0 0, calls = []\<rparr>
   \<and> tuple (snd (getNextTuple INDEX_LOOKUP_TYPE_LTE (rowsIndex [3::nat]) 1
       \<lparr>tuple = Some 99, cursor = cursorAt 0 0, calls = []\<rparr>)) = Some 3"
  using getNextTuple_assigns_tuple
    [where lookupType = INDEX_LOOKUP_TYPE_LTE and index = "rowsIndex [3::nat]"
       and activeNumOfSearchKeys = 1 and t = "Some 99"
       and s = "\<lparr>tuple = None, cursor = cursorAt 0 0, calls = []\<rparr>"]
  by (simp add: getNextTuple_defs rowsIndex_defs)

section \<open>Properties of the executor\<close>

subsection \<open>Unfolding the loop and the execution\<close>

lemma scanLoop_unfold:
  "scanLoop col lookupType activeNumOfSearchKeys projection params s postfilter emitted =
     (if \<not> fst (getNextTuple lookupType (tableIndex col) activeNumOfSearchKeys s)
      then Some (Inr emitted)
      else (case tuple (snd (getNextTuple lookupType (tableIndex col) activeNumOfSearchKeys s)) of
              None \<Rightarrow> Some (Inr emitted)
            | Some row \<Rightarrow>
                (case postfilterDecide col postfilter row of
                   Inl err \<Rightarrow> Some (Inl err)
                 | Inr (decision, postfilter') \<Rightarrow>
                     (case decision of
                        RejectAndStop \<Rightarrow> Some (Inr emitted)
                      | RejectAndContinue \<Rightarrow>
                          scanLoop col lookupType activeNumOfSearchKeys projection params
                            (snd (getNextTuple lookupType (tableIndex col)
                                    activeNumOfSearchKeys s))
                            postfilter' emitted
                      | Accept \<Rightarrow>
                          (case projectRow col projection params row of
                             Inl err \<Rightarrow> Some (Inl err)
                           | Inr projected \<Rightarrow>
                               scanLoop col lookupType activeNumOfSearchKeys projection
                                 params
                                 (snd (getNextTuple lookupType (tableIndex col)
                                         activeNumOfSearchKeys s))
                                 postfilter' (emitted @ [projected]))))))"
  by (subst scanLoop.simps) (simp add: case_prod_unfold)

lemma outputRoute_buffer [simp]:
  "outputRoute (ex\<lparr>m_searchKeyBackingStore := b\<rparr>) = outputRoute ex"
  by (simp add: outputRoute_def configuredRoutes_def)

lemma configuredRoutes_buffer [simp]:
  "configuredRoutes (ex\<lparr>m_searchKeyBackingStore := b\<rparr>) = configuredRoutes ex"
  by (simp add: configuredRoutes_def)

lemma scanPositioned_buffer [simp]:
  "scanPositioned col (ex\<lparr>m_searchKeyBackingStore := b\<rparr>) = scanPositioned col ex"
  by (simp add: scanPositioned_def fun_eq_iff split: sum.splits)

lemma p_execute_unfold:
  assumes "m_searchKeyBackingStore ex = Some buffer"
    and "outputRoute ex = Some route"
    and "buildSearchKey (evaluate col) params
           (take (nat (min (m_numOfSearchkeys ex) (activeSearchKeys col (m_node ex) params)))
              (m_searchKeyArray ex)) 0 buffer = Some (buffer', built)"
  shows "p_execute col ex params =
      (case built of
         Inl err \<Rightarrow> Some (ex\<lparr>m_searchKeyBackingStore := Some buffer'\<rparr>, Inl err)
       | Inr _ \<Rightarrow>
           (case scanPositioned col ex params
                   (min (m_numOfSearchkeys ex) (activeSearchKeys col (m_node ex) params))
                   (searchKey
                      (take (nat (min (m_numOfSearchkeys ex)
                                   (activeSearchKeys col (m_node ex) params)))
                         (m_searchKeyArray ex))
                      buffer') of
              None \<Rightarrow> None
            | Some (Inl err) \<Rightarrow> Some (ex\<lparr>m_searchKeyBackingStore := Some buffer'\<rparr>, Inl err)
            | Some (Inr rows) \<Rightarrow>
                Some (ex\<lparr>m_searchKeyBackingStore := Some buffer'\<rparr>, Inr (route, rows))))"
  using assms by (simp add: p_execute_def Let_def)

lemma p_execute_Some:
  assumes "p_execute col ex params = Some (ex1, result)"
  obtains buffer route buffer' built where
    "m_searchKeyBackingStore ex = Some buffer" and "outputRoute ex = Some route"
    and "buildSearchKey (evaluate col) params
           (take (nat (min (m_numOfSearchkeys ex) (activeSearchKeys col (m_node ex) params)))
              (m_searchKeyArray ex)) 0 buffer = Some (buffer', built)"
    and "ex1 = ex\<lparr>m_searchKeyBackingStore := Some buffer'\<rparr>"
proof -
  from assms obtain buffer route where
    buf: "m_searchKeyBackingStore ex = Some buffer" and route: "outputRoute ex = Some route"
    by (auto simp: p_execute_def split: option.splits)
  from assms buf route obtain buffer' built where
    build: "buildSearchKey (evaluate col) params
           (take (nat (min (m_numOfSearchkeys ex) (activeSearchKeys col (m_node ex) params)))
              (m_searchKeyArray ex)) 0 buffer = Some (buffer', built)"
    by (auto simp: p_execute_def Let_def split: option.splits)
  have "ex1 = ex\<lparr>m_searchKeyBackingStore := Some buffer'\<rparr>"
    using assms unfolding p_execute_unfold [OF buf route build]
    by (simp split: sum.splits option.splits)
  with buf route build that show ?thesis by blast
qed

text \<open>
  A constructed executor has no buffer and no inline consumer yet; executing it before
  initialisation has no defined result.
\<close>

lemma newIndexScanExecutor_unconfigured:
  "m_searchKeyBackingStore (newIndexScanExecutor u) = None
   \<and> m_aggExec (newIndexScanExecutor u) = None
   \<and> m_insertExec (newIndexScanExecutor u) = None
   \<and> p_execute col (newIndexScanExecutor u) params = None"
  by (simp add: newIndexScanExecutor_def p_execute_def)

subsection \<open>The search-key buffer is rebuilt in place\<close>

lemma buildSearchKey_frame:
  "buildSearchKey ev params es slot buffer = Some (buffer', r)
    \<Longrightarrow> length buffer' = length buffer \<and> (\<forall>j<slot. buffer' ! j = buffer ! j)"
proof (induction es arbitrary: slot buffer)
  case Nil
  then show ?case by simp
next
  case (Cons e es)
  show ?case
  proof (cases "ev e params")
    case (Inl err)
    with Cons.prems show ?thesis by (simp split: if_splits)
  next
    case (Inr v)
    with Cons.prems have rec:
      "buildSearchKey ev params es (Suc slot) (buffer[slot := v]) = Some (buffer', r)"
      and "slot < length buffer"
      by (simp_all split: if_splits)
    from Cons.IH [OF rec] show ?thesis by simp
  qed
qed

lemma buildSearchKey_capacity:
  assumes "length b2 = length b1"
    and "buildSearchKey ev params es slot b1 = Some (b1', r)"
  shows "\<exists>b2'. buildSearchKey ev params es slot b2 = Some (b2', r)
    \<and> length b2' = length b1'
    \<and> (r = Inr () \<longrightarrow> (\<forall>j. slot \<le> j \<and> j < slot + length es \<longrightarrow> b2' ! j = b1' ! j))"
  using assms
proof (induction es arbitrary: slot b1 b2)
  case Nil
  then show ?case by auto
next
  case (Cons e es)
  from Cons.prems have inrange: "slot < length b1"
    by (simp split: if_splits)
  show ?case
  proof (cases "ev e params")
    case (Inl err)
    from Cons.prems(2) inrange have "b1' = b1" and "r = Inl err"
      by (simp_all add: Inl)
    with Cons.prems(1) inrange show ?thesis by (simp add: Inl)
  next
    case (Inr v)
    with Cons.prems(2) inrange have rec1:
      "buildSearchKey ev params es (Suc slot) (b1[slot := v]) = Some (b1', r)"
      by simp
    have "length (b2[slot := v]) = length (b1[slot := v])"
      using Cons.prems(1) by simp
    from Cons.IH [OF this rec1] obtain b2' where
      rec2: "buildSearchKey ev params es (Suc slot) (b2[slot := v]) = Some (b2', r)"
      and len: "length b2' = length b1'"
      and later: "r = Inr () \<longrightarrow>
        (\<forall>j. Suc slot \<le> j \<and> j < Suc slot + length es \<longrightarrow> b2' ! j = b1' ! j)"
      by blast
    from buildSearchKey_frame [OF rec1] inrange have at1: "b1' ! slot = v"
      by simp
    from buildSearchKey_frame [OF rec2] inrange Cons.prems(1) have at2: "b2' ! slot = v"
      by simp
    have step: "buildSearchKey ev params (e # es) slot b2 = Some (b2', r)"
      using rec2 inrange Cons.prems(1) Inr by simp
    have "b2' ! j = b1' ! j"
      if "r = Inr ()" and "slot \<le> j" and "j < slot + length (e # es)" for j
    proof (cases "j = slot")
      case True
      with at1 at2 show ?thesis by simp
    next
      case False
      with that have "Suc slot \<le> j" and "j < Suc slot + length es"
        by simp_all
      with later that(1) show ?thesis by blast
    qed
    with step len show ?thesis by blast
  qed
qed

lemma searchKey_capacity:
  assumes "length b2 = length b1"
    and "buildSearchKey ev params es 0 b1 = Some (b1', Inr u)"
  shows "\<exists>b2'. buildSearchKey ev params es 0 b2 = Some (b2', Inr u)
    \<and> length b2' = length b1' \<and> searchKey es b2' = searchKey es b1'"
proof -
  from buildSearchKey_capacity [OF assms] obtain b2' where
    build: "buildSearchKey ev params es 0 b2 = Some (b2', Inr u)"
    and len: "length b2' = length b1'"
    and same: "\<forall>j. j < length es \<longrightarrow> b2' ! j = b1' ! j"
    by auto
  have "take (length es) b2' = take (length es) b1'"
    by (rule nth_equalityI) (simp_all add: len same)
  with build len show ?thesis by (simp add: searchKey_def)
qed

subsection \<open>Executions keep the configured sinks\<close>

lemma runExecutions_routes:
  "runExecutions col e paramss = Some (ex', results)
    \<Longrightarrow> m_outputTable ex' = m_outputTable e
      \<and> m_aggExec ex' = m_aggExec e
      \<and> m_insertExec ex' = m_insertExec e
      \<and> (\<forall>route rows. Inr (route, rows) \<in> set results \<longrightarrow> Some route = outputRoute e)"
proof (induction paramss arbitrary: e results)
  case Nil
  then show ?case by simp
next
  case (Cons params rest)
  from Cons.prems obtain e1 result results' where
    first: "p_execute col e params = Some (e1, result)"
    and others: "runExecutions col e1 rest = Some (ex', results')"
    and results: "results = result # results'"
    by (auto split: option.splits)
  from first obtain buffer route buffer' built where
    buf: "m_searchKeyBackingStore e = Some buffer"
    and route: "outputRoute e = Some route"
    and build: "buildSearchKey (evaluate col) params
         (take (nat (min (m_numOfSearchkeys e) (activeSearchKeys col (m_node e) params)))
            (m_searchKeyArray e)) 0 buffer = Some (buffer', built)"
    and e1: "e1 = e\<lparr>m_searchKeyBackingStore := Some buffer'\<rparr>"
    by (rule p_execute_Some)
  have "route' = route" if "result = Inr (route', rows)" for route' rows
    using first that unfolding p_execute_unfold [OF buf route build]
    by (auto split: sum.splits option.splits)
  with Cons.IH [OF others] show ?case
    by (auto simp: results e1 route)
qed

subsection \<open>What an execution leaves and what it depends on\<close>

lemma p_execute_state:
  assumes "p_execute col ex params = Some (ex1, result)"
  shows "\<exists>b b1. m_searchKeyBackingStore ex = Some b
    \<and> ex1 = ex\<lparr>m_searchKeyBackingStore := Some b1\<rparr> \<and> length b1 = length b"
proof -
  from assms obtain buffer route buffer' built where
    buf: "m_searchKeyBackingStore ex = Some buffer"
    and build: "buildSearchKey (evaluate col) params
         (take (nat (min (m_numOfSearchkeys ex) (activeSearchKeys col (m_node ex) params)))
            (m_searchKeyArray ex)) 0 buffer = Some (buffer', built)"
    and ex1: "ex1 = ex\<lparr>m_searchKeyBackingStore := Some buffer'\<rparr>"
    by (rule p_execute_Some)
  from buildSearchKey_frame [OF build] have "length buffer' = length buffer"
    by simp
  with buf ex1 show ?thesis by blast
qed

lemma runExecutions_state:
  "runExecutions col ex paramss = Some (ex', results)
    \<Longrightarrow> m_searchKeyBackingStore ex = Some b
    \<Longrightarrow> \<exists>b'. ex' = ex\<lparr>m_searchKeyBackingStore := Some b'\<rparr> \<and> length b' = length b"
proof (induction paramss arbitrary: ex b results)
  case Nil
  then have "ex' = ex\<lparr>m_searchKeyBackingStore := Some b\<rparr>"
    by simp
  then show ?case by blast
next
  case (Cons params rest)
  from Cons.prems(1) obtain e1 result results' where
    first: "p_execute col ex params = Some (e1, result)"
    and others: "runExecutions col e1 rest = Some (ex', results')"
    by (auto split: option.splits)
  from p_execute_state [OF first] Cons.prems(2) obtain b1 where
    e1: "e1 = ex\<lparr>m_searchKeyBackingStore := Some b1\<rparr>" and len1: "length b1 = length b"
    by auto
  then have "m_searchKeyBackingStore e1 = Some b1"
    by simp
  from Cons.IH [OF others this] obtain b' where
    "ex' = e1\<lparr>m_searchKeyBackingStore := Some b'\<rparr>" and "length b' = length b1"
    by blast
  with e1 len1 have "ex' = ex\<lparr>m_searchKeyBackingStore := Some b'\<rparr>" and "length b' = length b"
    by simp_all
  then show ?case by blast
qed

lemma p_execute_capacity:
  assumes "m_searchKeyBackingStore ex = Some b1"
    and "length b2 = length b1"
    and "p_execute col ex params = Some (ex1, result)"
  shows "\<exists>ex2. p_execute col (ex\<lparr>m_searchKeyBackingStore := Some b2\<rparr>) params
                = Some (ex2, result)"
proof -
  let ?keys = "take (nat (min (m_numOfSearchkeys ex) (activeSearchKeys col (m_node ex) params)))
                 (m_searchKeyArray ex)"
  let ?ex2 = "ex\<lparr>m_searchKeyBackingStore := Some b2\<rparr>"
  from assms(3) obtain buffer route b1' built where
    buf: "m_searchKeyBackingStore ex = Some buffer"
    and route: "outputRoute ex = Some route"
    and build: "buildSearchKey (evaluate col) params ?keys 0 buffer = Some (b1', built)"
    by (rule p_execute_Some)
  from buf assms(1) have buffer: "buffer = b1"
    by simp
  have buf2: "m_searchKeyBackingStore ?ex2 = Some b2" and route2: "outputRoute ?ex2 = Some route"
    by (simp_all add: route)
  show ?thesis
  proof (cases built)
    case (Inl err)
    from buildSearchKey_capacity [OF assms(2) build [unfolded buffer]] obtain b2' where
      "buildSearchKey (evaluate col) params ?keys 0 b2 = Some (b2', built)"
      by blast
    then have build2: "buildSearchKey (evaluate col) params
        (take (nat (min (m_numOfSearchkeys ?ex2) (activeSearchKeys col (m_node ?ex2) params)))
           (m_searchKeyArray ?ex2)) 0 b2 = Some (b2', built)"
      by simp
    from assms(3) have "result = Inl err"
      unfolding p_execute_unfold [OF buf route build] by (simp add: Inl)
    then show ?thesis
      unfolding p_execute_unfold [OF buf2 route2 build2] by (simp add: Inl)
  next
    case (Inr u)
    from searchKey_capacity [OF assms(2) build [unfolded buffer Inr]] obtain b2' where
      build2': "buildSearchKey (evaluate col) params ?keys 0 b2 = Some (b2', Inr u)"
      and key: "searchKey ?keys b2' = searchKey ?keys b1'"
      by blast
    from build2' have build2: "buildSearchKey (evaluate col) params
        (take (nat (min (m_numOfSearchkeys ?ex2) (activeSearchKeys col (m_node ?ex2) params)))
           (m_searchKeyArray ?ex2)) 0 b2 = Some (b2', built)"
      by (simp add: Inr)
    from assms(3) show ?thesis
      unfolding p_execute_unfold [OF buf route build] p_execute_unfold [OF buf2 route2 build2]
      by (auto simp: Inr key split: option.splits sum.splits)
  qed
qed

subsection \<open>Running the worked configuration\<close>

lemmas worked_defs =
  rowsCollaborators_def equalityPlan_def greaterOrEqualPlan_def aggregatePlan_def
  initialisedExecutor_def pairCollaborators_def pairRows_def partialKeyPlan_def
  partialKeyExecutor_def pairPosition_def
  scenarioRows_def parameterValue_def rowsPosition_def limitPostfilter_def

lemmas execute_defs =
  p_execute_def searchKey_def scanPositioned_def outputRoute_def configuredRoutes_def projectRow_def
  scanLoop_unfold getNextTuple_defs rowsIndex_defs Let_def

text \<open>
  An exact-match scan with key 1 over rows with keys 1, 1 and 2 yields the two rows of
  the key's duplicate chain, in chain order, and then ends.
\<close>

lemma equality_execution:
  "p_execute (rowsCollaborators scenarioRows) (initialisedExecutor equalityPlan) [1]
     = Some ((initialisedExecutor equalityPlan)\<lparr>m_searchKeyBackingStore := Some [1]\<rparr>,
             Inr (ToResultTable 0, [(1, ''a''), (1, ''b'')]))"
  by (simp add: worked_defs execute_defs)

text \<open>
  A range scan from a lower bound: greater-or-equal with key 2 over the same rows
  yields the one row at or beyond the key.
\<close>

lemma greaterOrEqual_execution:
  "p_execute (rowsCollaborators scenarioRows) (initialisedExecutor greaterOrEqualPlan) [2]
     = Some ((initialisedExecutor greaterOrEqualPlan)\<lparr>m_searchKeyBackingStore := Some [2]\<rparr>,
             Inr (ToResultTable 0, [(2, ''c'')]))"
  by (simp add: worked_defs execute_defs)

text \<open>
  A partial-key range scan on the two-column index. With one binding the key has one
  column and the scan starts at the first row; with two bindings it starts at the
  second. The second execution leaves its second key value in the buffer.
\<close>

lemma partialKey_initialisation:
  "p_init (pairCollaborators pairRows) 0 partialKeyPlan (newIndexScanExecutor staleMemory)
     = Inr (partialKeyExecutor [0, 0])"
  by (simp add: p_init_def newIndexScanExecutor_def staleMemory_def worked_defs
      numeral_2_eq_2)

lemma partialKey_first:
  "p_execute (pairCollaborators pairRows) (partialKeyExecutor [0, 0]) [1]
     = Some (partialKeyExecutor [1, 0], Inr (ToResultTable 0, [(1, 1), (1, 2), (2, 3)]))"
  by (simp add: worked_defs execute_defs)

lemma partialKey_between:
  "runExecutions (pairCollaborators pairRows) (partialKeyExecutor [1, 0]) [[1, 2]]
     = Some (partialKeyExecutor [1, 2], [Inr (ToResultTable 0, [(1, 2), (2, 3)])])"
  by (simp add: worked_defs execute_defs)

lemma aggregate_initialisation:
  "p_init (rowsCollaborators scenarioRows) 0 aggregatePlan (newIndexScanExecutor staleMemory)
     = Inr (initialisedExecutor aggregatePlan)"
  by (simp add: p_init_def newIndexScanExecutor_def staleMemory_def worked_defs)

lemma aggregate_executions:
  "runExecutions (rowsCollaborators scenarioRows) (initialisedExecutor aggregatePlan)
       [[1], [2], []]
     = Some ((initialisedExecutor aggregatePlan)\<lparr>m_searchKeyBackingStore := Some [2]\<rparr>,
             [Inr (ToAggregate 7, [(1, ''a''), (1, ''b'')]),
              Inr (ToAggregate 7, [(2, ''c'')]),
              Inl EvaluationError])"
  by (simp add: worked_defs execute_defs)

lemma emptyIndex_rowsIndex: "emptyIndex (rowsIndex rows) = (rows = [])"
proof
  assume "emptyIndex (rowsIndex rows)"
  then have "isNullTuple (fst (nextValue (rowsIndex rows) (cursorAt 0 0)))"
    unfolding emptyIndex_def by blast
  then show "rows = []"
    by (simp add: rowsIndex_defs isNullTuple_def split: if_splits)
next
  assume "rows = []"
  then show "emptyIndex (rowsIndex rows)"
    by (simp add: emptyIndex_def rowsIndex_defs isNullTuple_def)
qed

subsection \<open>Idempotence, output routes and the empty index\<close>

text \<open>
  C6. Once an execution with some parameter bindings has returned a result, every later
  execution of the same executor with the same bindings, against the same collaborators
  (index and expression evaluator unchanged), returns the same result, rows and route or
  error alike, whatever executions with whatever bindings the executor has run in
  between.
\<close>

theorem p_execute_idempotent:
  assumes "p_execute col ex params = Some (ex1, result)"
    and "runExecutions col ex1 between = Some (ex2, results)"
  shows "\<exists>ex3. p_execute col ex2 params = Some (ex3, result)"
proof -
  from p_execute_state [OF assms(1)] obtain b b1 where
    buf: "m_searchKeyBackingStore ex = Some b"
    and ex1: "ex1 = ex\<lparr>m_searchKeyBackingStore := Some b1\<rparr>"
    and len1: "length b1 = length b"
    by blast
  from ex1 have "m_searchKeyBackingStore ex1 = Some b1"
    by simp
  from runExecutions_state [OF assms(2) this] obtain b2 where
    "ex2 = ex1\<lparr>m_searchKeyBackingStore := Some b2\<rparr>" and "length b2 = length b1"
    by blast
  with ex1 len1 have ex2: "ex2 = ex\<lparr>m_searchKeyBackingStore := Some b2\<rparr>"
    and len2: "length b2 = length b"
    by simp_all
  from p_execute_capacity [OF buf len2 assms(1)] show ?thesis
    unfolding ex2 .
qed

theorem p_execute_idempotent_witness:
  "p_execute (pairCollaborators pairRows) (partialKeyExecutor [0, 0]) [1]
     = Some (partialKeyExecutor [1, 0], Inr (ToResultTable 0, [(1, 1), (1, 2), (2, 3)]))
   \<and> runExecutions (pairCollaborators pairRows) (partialKeyExecutor [1, 0]) [[1, 2]]
     = Some (partialKeyExecutor [1, 2], [Inr (ToResultTable 0, [(1, 2), (2, 3)])])
   \<and> p_execute (pairCollaborators pairRows) (partialKeyExecutor [1, 2]) [1]
     = Some (partialKeyExecutor [1, 2], Inr (ToResultTable 0, [(1, 1), (1, 2), (2, 3)]))"
proof -
  from p_execute_idempotent [OF partialKey_first partialKey_between] obtain ex3 where
    again: "p_execute (pairCollaborators pairRows) (partialKeyExecutor [1, 2]) [1]
      = Some (ex3, Inr (ToResultTable 0, [(1, 1), (1, 2), (2, 3)]))"
    by blast
  from p_execute_state [OF again] have "ex3 = partialKeyExecutor [1, 2]"
    using again by (simp add: worked_defs execute_defs)
  with again partialKey_first partialKey_between show ?thesis by simp
qed

text \<open>
  C7. After a successful initialisation exactly one of the three sinks (result table,
  inline aggregate consumer, inline insert consumer) is configured, the other two
  pointers are null, and the configured one is the route the plan shape determines.
  Every sequence of executions that returns leaves the three pointers as
  initialisation set them, and every execution in it that produces rows hands them to
  that same route.
\<close>

theorem output_route_fixed:
  assumes "p_init col blank plan ex0 = Inr ex"
  shows "configuredRoutes ex = [planRoute col plan]
    \<and> ((m_outputTable ex \<noteq> None \<and> m_aggExec ex = None \<and> m_insertExec ex = None)
       \<or> (m_outputTable ex = None \<and> m_aggExec ex \<noteq> None \<and> m_insertExec ex = None)
       \<or> (m_outputTable ex = None \<and> m_aggExec ex = None \<and> m_insertExec ex \<noteq> None))
    \<and> (\<forall>paramss ex' results.
          runExecutions col ex paramss = Some (ex', results) \<longrightarrow>
            m_outputTable ex' = m_outputTable ex
            \<and> m_aggExec ex' = m_aggExec ex
            \<and> m_insertExec ex' = m_insertExec ex
            \<and> (\<forall>route rows. Inr (route, rows) \<in> set results \<longrightarrow> route = planRoute col plan))"
proof -
  from assms obtain keyWidth where
    ex: "ex = ex0\<lparr>
            m_node := plan,
            m_numOfSearchkeys := int (length (planSearchKeys plan)),
            m_projectionNode := planProjection plan,
            m_searchKeyArray := planSearchKeys plan,
            m_lookupType := planLookupType plan,
            m_sortDirection := planSortDirection plan,
            m_hasOffsetRankOptimization := planOffsetRankEligible plan,
            m_outputTable :=
              (case planInlineSubPlan plan of None \<Rightarrow> Some (resultTable col) | Some _ \<Rightarrow> None),
            m_searchKeyBackingStore := Some (replicate keyWidth blank),
            m_aggExec :=
              (case planInlineSubPlan plan of Some (InlineAggregate a) \<Rightarrow> Some a | _ \<Rightarrow> None),
            m_insertExec :=
              (case planInlineSubPlan plan of Some (InlineInsert i) \<Rightarrow> Some i | _ \<Rightarrow> None)\<rparr>"
    by (auto simp: p_init_def split: option.splits if_splits)
  have routes: "configuredRoutes ex = [planRoute col plan]"
    by (simp add: ex configuredRoutes_def planRoute_def
        split: option.splits InlineSubPlan.splits)
  have exclusive:
    "(m_outputTable ex \<noteq> None \<and> m_aggExec ex = None \<and> m_insertExec ex = None)
     \<or> (m_outputTable ex = None \<and> m_aggExec ex \<noteq> None \<and> m_insertExec ex = None)
     \<or> (m_outputTable ex = None \<and> m_aggExec ex = None \<and> m_insertExec ex \<noteq> None)"
    by (simp add: ex split: option.splits InlineSubPlan.splits)
  have "outputRoute ex = Some (planRoute col plan)"
    by (simp add: outputRoute_def routes)
  with runExecutions_routes [of col ex] routes exclusive show ?thesis by auto
qed

theorem output_route_fixed_witness:
  "configuredRoutes (initialisedExecutor aggregatePlan) = [ToAggregate 7]
   \<and> m_outputTable ((initialisedExecutor aggregatePlan)\<lparr>m_searchKeyBackingStore := Some [2]\<rparr>)
       = None
   \<and> m_aggExec ((initialisedExecutor aggregatePlan)\<lparr>m_searchKeyBackingStore := Some [2]\<rparr>)
       = Some 7
   \<and> m_insertExec ((initialisedExecutor aggregatePlan)\<lparr>m_searchKeyBackingStore := Some [2]\<rparr>)
       = None
   \<and> runExecutions (rowsCollaborators scenarioRows) (initialisedExecutor aggregatePlan)
       [[1], [2], []]
      = Some ((initialisedExecutor aggregatePlan)\<lparr>m_searchKeyBackingStore := Some [2]\<rparr>,
              [Inr (ToAggregate 7, [(1, ''a''), (1, ''b'')]),
               Inr (ToAggregate 7, [(2, ''c'')]),
               Inl EvaluationError])"
  using output_route_fixed [OF aggregate_initialisation] aggregate_executions
  by (simp add: planRoute_def aggregatePlan_def equalityPlan_def initialisedExecutor_def)

text \<open>
  C8. Over an index that contains zero rows, for every lookup type and every number of
  active search keys, the first call of \<^verbatim>\<open>getNextTuple\<close> returns false, and the scan loop
  returns at once, with no error and no row emitted, whatever the postfilter and the
  projection are.
\<close>

theorem scan_of_empty_index:
  assumes "emptyIndex (tableIndex col)"
  shows "fst (getNextTuple lookupType (tableIndex col) activeNumOfSearchKeys s) = False
    \<and> scanLoop col lookupType activeNumOfSearchKeys projection params s postfilter []
        = Some (Inr [])"
proof -
  have notfound: "fst (getNextTuple lookupType (tableIndex col) activeNumOfSearchKeys s) = False"
    using assms
    by (simp add: emptyIndex_def getNextTuple_defs Let_def case_prod_unfold)
  then have "scanLoop col lookupType activeNumOfSearchKeys projection params s postfilter []
      = Some (Inr [])"
    by (subst scanLoop_unfold) simp
  with notfound show ?thesis by simp
qed

theorem scan_of_empty_index_witness:
  "emptyIndex (tableIndex (rowsCollaborators []))
   \<and> fst (getNextTuple INDEX_LOOKUP_TYPE_EQ (tableIndex (rowsCollaborators [])) 0
        (startState (cursorAt 0 0))) = False
   \<and> scanLoop (rowsCollaborators []) INDEX_LOOKUP_TYPE_EQ 0 None [1]
        (startState (cursorAt 0 0)) (Some 3) [] = Some (Inr [])
   \<and> scanLoop (rowsCollaborators scenarioRows) INDEX_LOOKUP_TYPE_NONE 0 None []
        (startState (cursorAt 0 0)) (Some 2) [] = Some (Inr [(1, ''a''), (1, ''b'')])"
proof -
  have empty: "emptyIndex (tableIndex (rowsCollaborators []))"
    by (simp add: rowsCollaborators_def emptyIndex_rowsIndex)
  have "scanLoop (rowsCollaborators scenarioRows) INDEX_LOOKUP_TYPE_NONE 0 None []
        (startState (cursorAt 0 0)) (Some 2) [] = Some (Inr [(1, ''a''), (1, ''b'')])"
    by (simp add: worked_defs execute_defs)
  with empty scan_of_empty_index
    [OF empty, where lookupType = INDEX_LOOKUP_TYPE_EQ and activeNumOfSearchKeys = 0
       and projection = None and params = "[1]" and s = "startState (cursorAt 0 0)"
       and postfilter = "Some 3"]
  show ?thesis by simp
qed

end
